theory Spec2Isabelle
  imports Main "HOL-Library.Word"
begin

section \<open>JavaScript strings\<close>

text \<open>
  A JavaScript string is a sequence of UTF-16 code units: \<open>length\<close> counts code units and
  \<open>slice\<close> cuts between them. ASCII literals of the source are written with \<open>lit\<close>; the
  code units of the other characters of a literal are written out.
\<close>

type_synonym jschar = "16 word"
type_synonym jsstring = "jschar list"

definition lit :: "string \<Rightarrow> jsstring" where
  "lit s = map of_char s"

definition slice_last :: "nat \<Rightarrow> jsstring \<Rightarrow> jsstring" where
  \<comment> \<open>\<open>s.slice(-n)\<close>: from index \<open>max (length - n) 0\<close> to the end\<close>
  "slice_last n s = drop (length s - n) s"

fun startsWith :: "jsstring \<Rightarrow> jsstring \<Rightarrow> bool" where
  "startsWith s [] = True"
| "startsWith [] (p # ps) = False"
| "startsWith (c # cs) (p # ps) = (c = p \<and> startsWith cs ps)"

fun str_includes :: "jsstring \<Rightarrow> jsstring \<Rightarrow> bool" where
  \<comment> \<open>\<open>s.includes(sub)\<close>\<close>
  "str_includes [] sub = (sub = [])"
| "str_includes (c # cs) sub = (startsWith (c # cs) sub \<or> str_includes cs sub)"

fun split_on :: "jschar \<Rightarrow> jsstring \<Rightarrow> jsstring list" where
  \<comment> \<open>\<open>s.split(sep)\<close> for a separator of one code unit\<close>
  "split_on sep [] = [[]]"
| "split_on sep (c # cs) =
     (if c = sep then [] # split_on sep cs
      else (case split_on sep cs of [] \<Rightarrow> [[c]] | p # ps \<Rightarrow> (c # p) # ps))"

definition js_index :: "'a list \<Rightarrow> nat \<Rightarrow> 'a option" where
  \<comment> \<open>\<open>xs[i]\<close>: \<open>undefined\<close> (here \<open>None\<close>) out of range\<close>
  "js_index xs i = (if i < length xs then Some (xs ! i) else None)"

definition digit_char :: "nat \<Rightarrow> jschar" where
  "digit_char d = of_nat (48 + d)"

fun to_dec :: "nat \<Rightarrow> jsstring" where
  \<comment> \<open>the decimal text of a non-negative integer, as a template literal prints it\<close>
  "to_dec n = (if n < 10 then [digit_char n] else to_dec (n div 10) @ [digit_char (n mod 10)])"

declare to_dec.simps [simp del]

definition template :: "jsstring option \<Rightarrow> jsstring" where
  \<comment> \<open>\<open>${v}\<close> for a value that is a string or \<open>undefined\<close>\<close>
  "template v = (case v of None \<Rightarrow> lit ''undefined'' | Some s \<Rightarrow> s)"

definition truthy :: "jsstring option \<Rightarrow> jsstring option" where
  \<comment> \<open>the value when it passes a JavaScript truth test: \<open>undefined\<close> and the empty
      string do not\<close>
  "truthy v = (case v of None \<Rightarrow> None | Some s \<Rightarrow> if s = [] then None else Some s)"

definition check_mark :: jsstring where "check_mark = [0x2705]"
definition cross_mark :: jsstring where "cross_mark = [0x274C]"
definition warning_sign :: jsstring where "warning_sign = [0x26A0, 0xFE0F]"
definition rule_line :: jsstring where "rule_line = replicate 43 0x2550"
definition newline :: jsstring where "newline = [0x0A]"

section \<open>Counters and console\<close>

datatype color = reset | green | red | yellow | blue | cyan

fun colors :: "color \<Rightarrow> jsstring" where
  "colors reset = 0x1B # lit ''[0m''"
| "colors green = 0x1B # lit ''[32m''"
| "colors red = 0x1B # lit ''[31m''"
| "colors yellow = 0x1B # lit ''[33m''"
| "colors blue = 0x1B # lit ''[34m''"
| "colors cyan = 0x1B # lit ''[36m''"

definition BASE_URL :: jsstring where
  "BASE_URL = lit ''http://localhost:8080''"

text \<open>
  The module's mutable state: the two counters, the lines written by \<open>console.log\<close>, and the
  status passed to \<open>process.exit\<close> once it has been called. The counters are JavaScript
  numbers; a run increments them at most twenty times from 0, where \<open>++\<close> is exact, so they
  are natural numbers here.
\<close>

record state =
  testsPassed :: nat
  testsFailed :: nat
  console :: "jsstring list"
  exited :: "nat option"

definition initial :: state where
  "initial = \<lparr>testsPassed = 0, testsFailed = 0, console = [], exited = None\<rparr>"

definition log :: "jsstring \<Rightarrow> color \<Rightarrow> state \<Rightarrow> state" where
  "log message c s = s\<lparr>console := console s @ [colors c @ message @ colors reset]\<rparr>"

definition passed_incr :: "state \<Rightarrow> state" where
  \<comment> \<open>\<open>testsPassed++\<close>\<close>
  "passed_incr s = s\<lparr>testsPassed := testsPassed s + 1\<rparr>"

definition failed_incr :: "state \<Rightarrow> state" where
  \<comment> \<open>\<open>testsFailed++\<close>\<close>
  "failed_incr s = s\<lparr>testsFailed := testsFailed s + 1\<rparr>"

definition section_header :: "jsstring \<Rightarrow> state \<Rightarrow> state" where
  \<comment> \<open>the three \<open>log\<close> calls that open every check\<close>
  "section_header title s =
     log (rule_line @ newline) cyan (log title blue (log (newline @ rule_line) cyan s))"

section \<open>The environment and the external services\<close>

text \<open>
  A value thrown or rejected by a library is an object; the script reads only its
  \<open>message\<close> property, which may be \<open>undefined\<close>.
\<close>

datatype js_error = Error (message: "jsstring option")

record request =
  url :: jsstring
  http_method :: jsstring
  headers :: "(jsstring \<times> jsstring) list"
  body :: "jsstring option"

record response =
  status :: nat

definition ok :: "response \<Rightarrow> bool" where
  \<comment> \<open>\<open>response.ok\<close> of node-fetch: the status is in the range 200 to 299\<close>
  "ok r = (200 \<le> status r \<and> status r < 300)"

text \<open>
  What one run of the script meets outside itself: \<open>process.env\<close> after
  \<open>dotenv.config()\<close>, the text of \<open>new Date().toLocaleString()\<close>, and the outcome of each
  library call (\<open>None\<close> or \<open>Inr\<close> when the promise resolves, the rejection otherwise).
\<close>

record world =
  env :: "jsstring \<Rightarrow> jsstring option"
  started :: jsstring
  mongoose_connect :: "jsstring \<Rightarrow> js_error option"
  mongoose_disconnect :: "js_error option"
  cloudinary_usage :: "jsstring \<Rightarrow> jsstring \<Rightarrow> jsstring \<Rightarrow> js_error option"
  fetch :: "request \<Rightarrow> js_error + response"

text \<open>
  A check is an async function that is awaited: it runs to completion on the state and
  either returns (\<open>None\<close>) or throws (\<open>Some error\<close>); what it did to the state before
  throwing stays done.
\<close>

type_synonym check = "state \<Rightarrow> js_error option \<times> state"

section \<open>The checks\<close>

subsection \<open>testEnvironmentVariables\<close>

record envVar =
  name :: jsstring
  required :: bool
  sensitive :: bool

definition envVars :: "envVar list" where
  "envVars =
     [\<lparr>name = lit ''MONGODB_URI'', required = True, sensitive = True\<rparr>,
      \<lparr>name = lit ''FRONTEND_URL'', required = True, sensitive = False\<rparr>,
      \<lparr>name = lit ''CLODINARY_CLOUD_NAME'', required = True, sensitive = False\<rparr>,
      \<lparr>name = lit ''CLODINARY_API_KEY'', required = True, sensitive = False\<rparr>,
      \<lparr>name = lit ''CLODINARY_API_SECRET_KEY'', required = True, sensitive = True\<rparr>,
      \<lparr>name = lit ''RESEND_API'', required = True, sensitive = True\<rparr>,
      \<lparr>name = lit ''SECRET_KEY_ACCESS_TOKEN'', required = True, sensitive = True\<rparr>,
      \<lparr>name = lit ''SECRET_KEY_REFRESH_TOKEN'', required = True, sensitive = True\<rparr>,
      \<lparr>name = lit ''PORT'', required = False, sensitive = False\<rparr>,
      \<lparr>name = lit ''STRIPE_SECRET_KEY'', required = False, sensitive = True\<rparr>]"

definition displayValue :: "envVar \<Rightarrow> jsstring option \<Rightarrow> jsstring" where
  "displayValue envVar v =
     (case truthy v of
        Some s \<Rightarrow> if sensitive envVar then lit ''***'' @ slice_last 4 s else s
      | None \<Rightarrow> lit ''NOT SET'')"

definition envVar_callback :: "world \<Rightarrow> envVar \<Rightarrow> state \<Rightarrow> state" where
  \<comment> \<open>the function passed to \<open>envVars.forEach\<close>\<close>
  "envVar_callback w envVar s =
     (let v = env w (name envVar);
          is_set = (truthy v \<noteq> None);
          mark = (if is_set then check_mark else cross_mark);
          requirement = (if required envVar then lit ''[REQUIRED]'' else lit ''[OPTIONAL]'');
          c = (if is_set then green else red);
          s1 = log (mark @ lit '' '' @ name envVar @ lit '' '' @ requirement) c s;
          s2 = log (lit ''   Value: '' @ displayValue envVar v @ newline) c s1
      in if is_set then passed_incr s2
         else if required envVar then failed_incr s2
         else s2)"

definition testEnvironmentVariables :: "world \<Rightarrow> check" where
  "testEnvironmentVariables w s =
     (None,
      foldl (\<lambda>s envVar. envVar_callback w envVar s)
        (section_header ([0xD83D, 0xDD0D] @ lit '' TESTING ENVIRONMENT VARIABLES'') s)
        envVars)"

subsection \<open>testMongoDBConnection\<close>

definition testMongoDBConnection_try :: "world \<Rightarrow> check" where
  \<comment> \<open>the \<open>try\<close> block; the two timeouts given to \<open>mongoose.connect\<close> bound how long the
      call takes, not what the script does with its outcome\<close>
  "testMongoDBConnection_try w s =
     (case truthy (env w (lit ''MONGODB_URI'')) of
        None \<Rightarrow>
          (None, failed_incr (log (cross_mark @ lit '' MONGODB_URI not configured'') red s))
      | Some mongoUri \<Rightarrow>
          (let s1 = log (lit ''Attempting connection...'') yellow s in
           case mongoose_connect w mongoUri of
             Some error \<Rightarrow> (Some error, s1)
           | None \<Rightarrow>
               (let s2 = log (check_mark @ lit '' MongoDB Connection: SUCCESS'') green s1;
                    s3 = log (lit ''   Connected to: ''
                                @ template (js_index (split_on 0x40 mongoUri) 1)) green s2;
                    s4 = passed_incr s3
                in (mongoose_disconnect w, s4))))"

definition testMongoDBConnection :: "world \<Rightarrow> check" where
  "testMongoDBConnection w s =
     (case testMongoDBConnection_try w
             (section_header ([0xD83D, 0xDDC4, 0xFE0F] @ lit ''  TESTING MONGODB CONNECTION'') s) of
        (None, s') \<Rightarrow> (None, s')
      | (Some error, s') \<Rightarrow>
          (None,
           failed_incr
             (log (lit ''   Error: '' @ template (message error)) red
                (log (cross_mark @ lit '' MongoDB Connection: FAILED'') red s'))))"

subsection \<open>testCloudinaryAPI\<close>

definition testCloudinaryAPI_try :: "world \<Rightarrow> check" where
  \<comment> \<open>\<open>cloudinary.config\<close> followed by \<open>cloudinary.api.usage()\<close> is one library outcome\<close>
  "testCloudinaryAPI_try w s =
     (case (truthy (env w (lit ''CLODINARY_CLOUD_NAME'')),
            truthy (env w (lit ''CLODINARY_API_KEY'')),
            truthy (env w (lit ''CLODINARY_API_SECRET_KEY''))) of
        (Some cloudName, Some apiKey, Some apiSecret) \<Rightarrow>
          (let s1 = log (lit ''Testing Cloudinary configuration...'') yellow s in
           case cloudinary_usage w cloudName apiKey apiSecret of
             Some error \<Rightarrow> (Some error, s1)
           | None \<Rightarrow>
               (let s2 = log (check_mark @ lit '' Cloudinary API: SUCCESS'') green s1;
                    s3 = log (lit ''   Cloud Name: '' @ cloudName) green s2;
                    s4 = log (lit ''   API Key: ***'' @ slice_last 4 apiKey) green s3;
                    s5 = log (lit ''   Account Status: Active'') green s4
                in (None, passed_incr s5)))
      | _ \<Rightarrow>
          (None,
           failed_incr (log (cross_mark @ lit '' Cloudinary credentials not configured'') red s)))"

definition testCloudinaryAPI :: "world \<Rightarrow> check" where
  "testCloudinaryAPI w s =
     (case testCloudinaryAPI_try w
             (section_header ([0x2601, 0xFE0F] @ lit ''  TESTING CLOUDINARY API'') s) of
        (None, s') \<Rightarrow> (None, s')
      | (Some error, s') \<Rightarrow>
          (None,
           failed_incr
             (log (lit ''   Error: '' @ template (message error)) red
                (log (cross_mark @ lit '' Cloudinary API: FAILED'') red s'))))"

subsection \<open>testResendAPI\<close>

definition resend_request :: "jsstring \<Rightarrow> request" where
  "resend_request resendApi =
     \<lparr>url = lit ''https://api.resend.com/emails'',
      http_method = lit ''GET'',
      headers = [(lit ''Authorization'', lit ''Bearer '' @ resendApi),
                 (lit ''Content-Type'', lit ''application/json'')],
      body = None\<rparr>"

definition testResendAPI_try :: "world \<Rightarrow> check" where
  "testResendAPI_try w s =
     (case truthy (env w (lit ''RESEND_API'')) of
        None \<Rightarrow> (None, failed_incr (log (cross_mark @ lit '' RESEND_API not configured'') red s))
      | Some resendApi \<Rightarrow>
          (let s1 = log (lit ''Testing Resend API connection...'') yellow s in
           case fetch w (resend_request resendApi) of
             Inl error \<Rightarrow> (Some error, s1)
           | Inr response \<Rightarrow>
               if ok response \<or> status response = 200 \<or> status response = 401 then
                 (let s2 = log (check_mark @ lit '' Resend Email API: SUCCESS'') green s1;
                      s3 = log (lit ''   API Key: re_***'' @ slice_last 8 resendApi) green s2;
                      s4 = log (lit ''   Status: Accessible'') green s3
                  in (None, passed_incr s4))
               else
                 (let s2 = log (cross_mark @ lit '' Resend Email API: FAILED'') red s1;
                      s3 = log (lit ''   Status Code: '' @ to_dec (status response)) red s2
                  in (None, failed_incr s3))))"

definition testResendAPI :: "world \<Rightarrow> check" where
  "testResendAPI w s =
     (case testResendAPI_try w
             (section_header ([0xD83D, 0xDCE7] @ lit '' TESTING RESEND EMAIL API'') s) of
        (None, s') \<Rightarrow> (None, s')
      | (Some error, s') \<Rightarrow>
          (None,
           failed_incr
             (log (lit ''   Error: '' @ template (message error)) red
                (log (cross_mark @ lit '' Resend Email API: FAILED'') red s'))))"

subsection \<open>testJWTSecrets\<close>

definition testJWTSecrets_try :: "world \<Rightarrow> check" where
  "testJWTSecrets_try w s =
     (case (truthy (env w (lit ''SECRET_KEY_ACCESS_TOKEN'')),
            truthy (env w (lit ''SECRET_KEY_REFRESH_TOKEN''))) of
        (Some accessToken, Some refreshToken) \<Rightarrow>
          (let accessTokenValid = (length accessToken \<ge> 20);
               refreshTokenValid = (length refreshToken \<ge> 20);
               s1 = (if accessTokenValid then
                       passed_incr
                         (log (lit ''   Length: '' @ to_dec (length accessToken)
                                 @ lit '' characters'') green
                            (log (check_mark @ lit '' SECRET_KEY_ACCESS_TOKEN: VALID'') green s))
                     else
                       failed_incr
                         (log (lit ''   Length: '' @ to_dec (length accessToken)
                                 @ lit '' characters (recommended: 20+)'') yellow
                            (log (warning_sign @ lit ''  SECRET_KEY_ACCESS_TOKEN: TOO SHORT'')
                               yellow s)));
               s2 = (if refreshTokenValid then
                       passed_incr
                         (log (lit ''   Length: '' @ to_dec (length refreshToken)
                                 @ lit '' characters'') green
                            (log (check_mark @ lit '' SECRET_KEY_REFRESH_TOKEN: VALID'') green s1))
                     else
                       failed_incr
                         (log (lit ''   Length: '' @ to_dec (length refreshToken)
                                 @ lit '' characters (recommended: 20+)'') yellow
                            (log (warning_sign @ lit ''  SECRET_KEY_REFRESH_TOKEN: TOO SHORT'')
                               yellow s1)))
           in (None, s2))
      | _ \<Rightarrow> (None, failed_incr (log (cross_mark @ lit '' JWT Secrets not configured'') red s)))"

definition testJWTSecrets :: "world \<Rightarrow> check" where
  "testJWTSecrets w s =
     (case testJWTSecrets_try w
             (section_header ([0xD83D, 0xDD10] @ lit '' TESTING JWT SECRETS'') s) of
        (None, s') \<Rightarrow> (None, s')
      | (Some error, s') \<Rightarrow>
          (None,
           failed_incr
             (log (lit ''   Error: '' @ template (message error)) red
                (log (cross_mark @ lit '' JWT Secrets: ERROR'') red s'))))"

subsection \<open>testCORSConfiguration\<close>

definition testCORSConfiguration_try :: "world \<Rightarrow> check" where
  "testCORSConfiguration_try w s =
     (case truthy (env w (lit ''FRONTEND_URL'')) of
        None \<Rightarrow> (None, failed_incr (log (cross_mark @ lit '' FRONTEND_URL not configured'') red s))
      | Some frontendUrl \<Rightarrow>
          (let s1 = log (lit ''FRONTEND_URL: '' @ frontendUrl) cyan s in
           if frontendUrl = lit ''http://localhost:5173'' then
             (None,
              passed_incr
                (log (lit ''   Frontend origin is correctly set to localhost:5173'') green
                   (log (check_mark @ lit '' CORS Configuration: VALID (Development)'') green s1)))
           else if str_includes frontendUrl (lit ''vercel.app'')
                   \<or> str_includes frontendUrl (lit ''campusbites'') then
             (None,
              passed_incr
                (log (lit ''   Frontend origin: '' @ frontendUrl) green
                   (log (check_mark @ lit '' CORS Configuration: VALID (Production)'') green s1)))
           else
             (None,
              log (lit ''   Frontend origin: '' @ frontendUrl) yellow
                (log (warning_sign @ lit ''  CORS Configuration: UNUSUAL'') yellow s1))))"

definition testCORSConfiguration :: "world \<Rightarrow> check" where
  "testCORSConfiguration w s =
     (case testCORSConfiguration_try w
             (section_header ([0xD83D, 0xDD17] @ lit '' TESTING CORS CONFIGURATION'') s) of
        (None, s') \<Rightarrow> (None, s')
      | (Some error, s') \<Rightarrow>
          (None,
           failed_incr
             (log (lit ''   Error: '' @ template (message error)) red
                (log (cross_mark @ lit '' CORS Configuration: ERROR'') red s'))))"

subsection \<open>testAPIEndpoints\<close>

text \<open>
  The \<open>body\<close> of an endpoint is an object literal; it is kept as the text
  \<open>JSON.stringify\<close> gives for it.
\<close>

record endpoint =
  ep_method :: jsstring
  path :: jsstring
  description :: jsstring
  ep_body :: "jsstring option"

definition endpoints :: "endpoint list" where
  "endpoints =
     [\<lparr>ep_method = lit ''GET'', path = lit ''/'', description = lit ''Health Check'',
       ep_body = None\<rparr>,
      \<lparr>ep_method = lit ''GET'', path = lit ''/api/category/get'',
       description = lit ''Get Categories'', ep_body = None\<rparr>,
      \<lparr>ep_method = lit ''POST'', path = lit ''/api/product/get'',
       description = lit ''Get Products'',
       ep_body = Some (lit ''{'' @ [0x22] @ lit ''skip'' @ [0x22] @ lit '':0,'' @ [0x22]
                        @ lit ''limit'' @ [0x22] @ lit '':10}'')\<rparr>]"

definition endpoint_request :: "endpoint \<Rightarrow> request" where
  "endpoint_request endpoint =
     \<lparr>url = BASE_URL @ path endpoint,
      http_method = ep_method endpoint,
      headers = [(lit ''Content-Type'', lit ''application/json'')],
      body = (if ep_body endpoint \<noteq> None \<and> ep_method endpoint = lit ''POST''
              then ep_body endpoint else None)\<rparr>"

definition endpoint_try :: "world \<Rightarrow> endpoint \<Rightarrow> check" where
  "endpoint_try w endpoint s =
     (let s1 = log (lit ''Testing '' @ ep_method endpoint @ lit '' '' @ path endpoint
                      @ lit ''...'') yellow s in
      case fetch w (endpoint_request endpoint) of
        Inl error \<Rightarrow> (Some error, s1)
      | Inr response \<Rightarrow>
          if ok response then
            (None,
             passed_incr
               (log (check_mark @ lit '' '' @ description endpoint @ lit '': SUCCESS (''
                       @ to_dec (status response) @ lit '')'') green s1))
          else
            (None,
             log (warning_sign @ lit ''  '' @ description endpoint @ lit '': ''
                    @ to_dec (status response)) yellow s1))"

definition endpoint_body :: "world \<Rightarrow> endpoint \<Rightarrow> check" where
  \<comment> \<open>one turn of the \<open>for\<close> loop: the \<open>try\<close> block and its \<open>catch\<close>\<close>
  "endpoint_body w endpoint s =
     (case endpoint_try w endpoint s of
        (None, s') \<Rightarrow> (None, s')
      | (Some error, s') \<Rightarrow>
          (None,
           failed_incr
             (log (lit ''   Error: '' @ template (message error)) red
                (log (cross_mark @ lit '' '' @ description endpoint @ lit '': FAILED'') red s'))))"

fun for_of :: "('a \<Rightarrow> check) \<Rightarrow> 'a list \<Rightarrow> check" where
  \<comment> \<open>\<open>for (const x of xs) { await f(x) }\<close>: a throw ends the loop\<close>
  "for_of f [] s = (None, s)"
| "for_of f (x # xs) s =
     (case f x s of (None, s') \<Rightarrow> for_of f xs s' | (Some error, s') \<Rightarrow> (Some error, s'))"

definition testAPIEndpoints :: "world \<Rightarrow> check" where
  "testAPIEndpoints w s =
     for_of (endpoint_body w) endpoints
       (section_header ([0xD83D, 0xDE80] @ lit '' TESTING API ENDPOINTS'') s)"

section \<open>Numbers\<close>

text \<open>
  JavaScript numbers are IEEE 754 doubles. \<open>generateReport\<close> divides one counter by the
  sum of both, multiplies by 100, formats with \<open>toFixed(2)\<close> and compares the text with 80.
  A finite non-negative double is \<open>m * 2 ^ e\<close> with \<open>m < 2 ^ 53\<close>, here the pair \<open>(m, e)\<close>;
  every operation is the exact result rounded to the nearest double, ties to the even
  significand. The exponent range is not modelled: the values met here are 0 or lie
  between \<open>2 ^ -53\<close> and \<open>2 ^ 7\<close>.
\<close>

type_synonym double = "nat \<times> int"

fun bit_length :: "nat \<Rightarrow> nat" where
  "bit_length n = (if n = 0 then 0 else bit_length (n div 2) + 1)"

declare bit_length.simps [simp del]

definition nearest_even :: "nat \<Rightarrow> nat \<Rightarrow> nat \<Rightarrow> nat" where
  \<comment> \<open>for the quotient \<open>q\<close> and the remainder \<open>r\<close> of a division by \<open>b\<close>: \<open>q\<close> or \<open>q + 1\<close>,
      the nearer to the exact quotient, the even one of the two when it lies half way\<close>
  "nearest_even q r b =
     (if 2 * r < b then q else if b < 2 * r then q + 1 else if even q then q else q + 1)"

definition round_ties_even :: "nat \<Rightarrow> nat \<Rightarrow> nat" where
  \<comment> \<open>the integer nearest to \<open>a / b\<close>, the even one of two\<close>
  "round_ties_even a b = nearest_even (a div b) (a mod b) b"

definition scaled :: "nat \<Rightarrow> nat \<Rightarrow> int \<Rightarrow> nat \<times> nat" where
  \<comment> \<open>\<open>a / b * 2 ^ k\<close> as a fraction\<close>
  "scaled a b k = (if 0 \<le> k then (a * 2 ^ nat k, b) else (a, b * 2 ^ nat (- k)))"

definition binary_shift :: "nat \<Rightarrow> nat \<Rightarrow> int \<Rightarrow> int" where
  \<comment> \<open>given \<open>k0\<close> with \<open>a / b * 2 ^ k0\<close> between \<open>2 ^ 51\<close> and \<open>2 ^ 53\<close>, the \<open>k\<close> with
      \<open>a / b * 2 ^ k\<close> from \<open>2 ^ 52\<close> up to \<open>2 ^ 53\<close>\<close>
  "binary_shift a b k0 =
     (if fst (scaled a b k0) < 2 ^ 52 * snd (scaled a b k0) then k0 + 1 else k0)"

definition significand :: "nat \<Rightarrow> int \<Rightarrow> double" where
  \<comment> \<open>\<open>m * 2 ^ - k\<close> for \<open>m\<close> from \<open>2 ^ 52\<close> to \<open>2 ^ 53\<close>, the last one carried over\<close>
  "significand m k = (if m = 2 ^ 53 then (2 ^ 52, 1 - k) else (m, - k))"

definition round_at :: "nat \<Rightarrow> nat \<Rightarrow> int \<Rightarrow> double" where
  "round_at a b k = significand (round_ties_even (fst (scaled a b k)) (snd (scaled a b k))) k"

definition to_double :: "nat \<Rightarrow> nat \<Rightarrow> double" where
  \<comment> \<open>the double nearest to the fraction \<open>a / b\<close>, for \<open>b > 0\<close>\<close>
  "to_double a b =
     (if a = 0 then (0, 0)
      else round_at a b (binary_shift a b (52 + int (bit_length b) - int (bit_length a))))"

definition fraction :: "double \<Rightarrow> nat \<times> nat" where
  \<comment> \<open>the exact value of a double as a fraction\<close>
  "fraction x = scaled (fst x) 1 (snd x)"

definition js_divide :: "nat \<Rightarrow> nat \<Rightarrow> double" where
  \<comment> \<open>\<open>a / b\<close> for two integers below \<open>2 ^ 53\<close>, \<open>b > 0\<close>\<close>
  "js_divide a b = to_double a b"

definition js_times :: "double \<Rightarrow> nat \<Rightarrow> double" where
  \<comment> \<open>\<open>x * c\<close> for an integer \<open>c\<close> below \<open>2 ^ 53\<close>\<close>
  "js_times x c = to_double (fst (fraction x) * c) (snd (fraction x))"

definition nearest_hundredths :: "double \<Rightarrow> nat" where
  \<comment> \<open>the integer \<open>n\<close> with \<open>n / 100\<close> nearest to \<open>x\<close>, the larger of two\<close>
  "nearest_hundredths x =
     (200 * fst (fraction x) + snd (fraction x)) div (2 * snd (fraction x))"

definition point_two :: "jsstring \<Rightarrow> jsstring" where
  \<comment> \<open>digits padded with zeros to three at least, a point before the last two\<close>
  "point_two m =
     (let m' = (if length m \<le> 2 then replicate (3 - length m) 0x30 @ m else m)
      in take (length m' - 2) m' @ lit ''.'' @ drop (length m' - 2) m')"

definition toFixed2 :: "double \<Rightarrow> jsstring" where
  \<comment> \<open>\<open>x.toFixed(2)\<close>\<close>
  "toFixed2 x = point_two (to_dec (nearest_hundredths x))"

definition digit_value :: "jschar \<Rightarrow> nat option" where
  "digit_value c = (if 0x30 \<le> c \<and> c \<le> 0x39 then Some (unat c - 48) else None)"

fun digits_value :: "nat \<Rightarrow> jsstring \<Rightarrow> nat option" where
  "digits_value acc [] = Some acc"
| "digits_value acc (c # cs) =
     (case digit_value c of None \<Rightarrow> None | Some d \<Rightarrow> digits_value (10 * acc + d) cs)"

definition string_to_number :: "jsstring \<Rightarrow> double option" where
  \<comment> \<open>the number a string converts to, for the decimal texts \<open>digits\<close> and
      \<open>digits.digits\<close>; \<open>None\<close> for any other text\<close>
  "string_to_number s =
     (case split_on 0x2E s of
        [i] \<Rightarrow> (if i = [] then None
                else case digits_value 0 i of None \<Rightarrow> None | Some n \<Rightarrow> Some (to_double n 1))
      | [i, f] \<Rightarrow> (if i = [] \<or> f = [] then None
                   else case digits_value 0 (i @ f) of
                          None \<Rightarrow> None
                        | Some n \<Rightarrow> Some (to_double n (10 ^ length f)))
      | _ \<Rightarrow> None)"

definition double_ge :: "double \<Rightarrow> nat \<Rightarrow> bool" where
  \<comment> \<open>\<open>x >= c\<close> for an integer \<open>c\<close>\<close>
  "double_ge x c = (c * snd (fraction x) \<le> fst (fraction x))"

text \<open>\<open>passPercentage\<close> holds the text made by \<open>toFixed\<close> or the number 0.\<close>

datatype str_or_num = Str jsstring | Num nat

fun template_value :: "str_or_num \<Rightarrow> jsstring" where
  "template_value (Str s) = s"
| "template_value (Num n) = to_dec n"

fun value_ge :: "str_or_num \<Rightarrow> nat \<Rightarrow> bool" where
  \<comment> \<open>\<open>v >= c\<close>: a string is converted to a number first, and to \<open>NaN\<close>, which compares
      false, when it is no number\<close>
  "value_ge (Num n) c = (c \<le> n)"
| "value_ge (Str s) c = (case string_to_number s of None \<Rightarrow> False | Some x \<Rightarrow> double_ge x c)"

section \<open>The report and the run\<close>

definition totalTests :: "state \<Rightarrow> nat" where
  "totalTests s = testsPassed s + testsFailed s"

definition passPercentage :: "state \<Rightarrow> str_or_num" where
  "passPercentage s =
     (if totalTests s > 0 then Str (toFixed2 (js_times (js_divide (testsPassed s) (totalTests s)) 100))
      else Num 0)"

definition generateReport :: check where
  "generateReport s =
     (let s0 = section_header ([0xD83D, 0xDCCA] @ lit '' VALIDATION REPORT'') s;
          s1 = log (lit ''Total Tests: '' @ to_dec (totalTests s)) cyan s0;
          s2 = log (check_mark @ lit '' Passed: '' @ to_dec (testsPassed s)) green s1;
          s3 = log (cross_mark @ lit '' Failed: '' @ to_dec (testsFailed s)) red s2;
          s4 = log (lit ''Success Rate: '' @ template_value (passPercentage s) @ lit ''%''
                      @ newline)
                 (if value_ge (passPercentage s) 80 then green else red) s3;
          s5 = (if testsFailed s = 0 then
                  log ([0xD83C, 0xDF89]
                         @ lit '' ALL TESTS PASSED! Your environment is properly configured.'')
                    green s4
                else if value_ge (passPercentage s) 80 then
                  log (warning_sign
                         @ lit ''  Some optional tests failed. Review above for details.'')
                    yellow s4
                else
                  log (cross_mark
                         @ lit '' Critical failures detected. Fix the issues above before deploying.'')
                    red s4)
      in (None, log (newline @ rule_line @ newline) cyan s5))"

definition seq :: "check \<Rightarrow> check \<Rightarrow> check" where
  \<comment> \<open>\<open>await a(); await b()\<close>: a throw of the first skips the second\<close>
  "seq a b s = (case a s of (None, s') \<Rightarrow> b s' | (Some error, s') \<Rightarrow> (Some error, s'))"

definition process_exit :: "nat \<Rightarrow> state \<Rightarrow> state" where
  "process_exit code s = s\<lparr>exited := Some code\<rparr>"

definition runAllTests_try :: "world \<Rightarrow> check" where
  "runAllTests_try w =
     seq (testEnvironmentVariables w)
       (seq (testMongoDBConnection w)
          (seq (testCloudinaryAPI w)
             (seq (testResendAPI w)
                (seq (testJWTSecrets w)
                   (seq (testCORSConfiguration w)
                      (seq (testAPIEndpoints w) generateReport))))))"

definition runAllTests :: "world \<Rightarrow> state \<Rightarrow> state" where
  "runAllTests w s =
     (let s1 = log (newline @ newline) reset s;
          s2 = log (0x2554 # rule_line @ [0x2557]) cyan s1;
          s3 = log ([0x2551] @ lit ''   CampusBites API & ENV Validation       '' @ [0x2551])
                 cyan s2;
          s4 = log ([0x2551] @ lit ''   Started: '' @ started w @ lit ''       '' @ [0x2551])
                 cyan s3;
          s5 = log (0x255A # rule_line @ [0x255D]) cyan s4
      in case runAllTests_try w s5 of
           (None, s') \<Rightarrow> s'
         | (Some error, s') \<Rightarrow>
             process_exit 1
               (log (template (message error)) red
                  (log (newline @ cross_mark @ lit '' Fatal Error during validation:'') red s')))"

definition exit_status :: "state \<Rightarrow> nat" where
  \<comment> \<open>the status the process ends with: the one given to \<open>process.exit\<close>, and 0 when the
      script ran to its end without calling it\<close>
  "exit_status s = (case exited s of Some code \<Rightarrow> code | None \<Rightarrow> 0)"

section \<open>The order routes\<close>

datatype handler = auth | CashOnDeliveryOrderController | getOrderDetailsController

datatype verb = GET | POST

record route =
  route_verb :: verb
  route_path :: jsstring
  route_stack :: "handler list"

type_synonym router = "route list"

definition Router :: router where
  "Router = []"

definition router_post :: "jsstring \<Rightarrow> handler list \<Rightarrow> router \<Rightarrow> router" where
  \<comment> \<open>\<open>router.post(path, ...handlers)\<close>\<close>
  "router_post p hs r = r @ [\<lparr>route_verb = POST, route_path = p, route_stack = hs\<rparr>]"

definition router_get :: "jsstring \<Rightarrow> handler list \<Rightarrow> router \<Rightarrow> router" where
  \<comment> \<open>\<open>router.get(path, ...handlers)\<close>\<close>
  "router_get p hs r = r @ [\<lparr>route_verb = GET, route_path = p, route_stack = hs\<rparr>]"

definition orderRouter :: router where
  "orderRouter =
     router_get (lit ''/order-list'') [auth, getOrderDetailsController]
       (router_post (lit ''/cash-on-delivery'') [auth, CashOnDeliveryOrderController] Router)"

text \<open>
  Express runs the handlers of a matched route in the order they were given: a handler
  either ends the request with a response or calls \<open>next\<close>. \<open>run_stack\<close> gives the
  handlers that ran, in order, and the response if one of them gave it.
\<close>

datatype 'r handled = Next | Respond 'r

fun run_stack :: "(handler \<Rightarrow> 'q \<Rightarrow> 'r handled) \<Rightarrow> handler list \<Rightarrow> 'q \<Rightarrow> handler list \<times> 'r option" where
  "run_stack behaviour [] q = ([], None)"
| "run_stack behaviour (h # hs) q =
     (case behaviour h q of
        Respond r \<Rightarrow> ([h], Some r)
      | Next \<Rightarrow> (case run_stack behaviour hs q of (invoked, r) \<Rightarrow> (h # invoked, r)))"

section \<open>What the specification says, and example runs\<close>

text \<open>
  The specification's success rate: passed / (passed + failed) times 100, rounded to two
  decimals. \<open>spec_rate\<close> is that number in hundredths of a percent, the nearest one (the
  upper one half way), and \<open>two_decimals\<close> is its text.
\<close>

definition spec_rate :: "nat \<Rightarrow> nat \<Rightarrow> nat" where
  "spec_rate passed failed =
     (20000 * passed + (passed + failed)) div (2 * (passed + failed))"

definition two_decimals :: "nat \<Rightarrow> jsstring" where
  "two_decimals h =
     to_dec (h div 100) @ lit ''.'' @ [digit_char (h div 10 mod 10), digit_char (h mod 10)]"

definition rate_agrees :: "nat \<Rightarrow> nat \<Rightarrow> bool" where
  \<comment> \<open>for \<open>p\<close> passed of \<open>t\<close> tests, the doubles of \<open>generateReport\<close> give the specification's
      rate, and its comparison with 80\<close>
  "rate_agrees t p =
     (nearest_hundredths (js_times (js_divide p t) 100) = spec_rate p (t - p) \<and>
      double_ge (to_double (spec_rate p (t - p)) 100) 80 = (8000 \<le> spec_rate p (t - p)))"

definition printed :: "jsstring \<Rightarrow> color \<Rightarrow> state \<Rightarrow> state \<Rightarrow> bool" where
  \<comment> \<open>the line is among those logged on the way from \<open>s\<close> to \<open>s'\<close>\<close>
  "printed m c s s' =
     (colors c @ m @ colors reset \<in> set (drop (length (console s)) (console s')))"

definition example_env :: "jsstring \<Rightarrow> jsstring option" where
  "example_env =
     [lit ''MONGODB_URI'' \<mapsto> lit ''mongodb+srv://user:pw@cluster0.example.net/bites'',
      lit ''FRONTEND_URL'' \<mapsto> lit ''http://localhost:5173'',
      lit ''CLODINARY_CLOUD_NAME'' \<mapsto> lit ''bites'',
      lit ''CLODINARY_API_KEY'' \<mapsto> lit ''123456789012345'',
      lit ''CLODINARY_API_SECRET_KEY'' \<mapsto> lit ''s3cr3t-cloud-key'',
      lit ''RESEND_API'' \<mapsto> lit ''re_123456789'',
      lit ''SECRET_KEY_ACCESS_TOKEN'' \<mapsto> lit ''abcdefghijklmnopqrst'',
      lit ''SECRET_KEY_REFRESH_TOKEN'' \<mapsto> lit ''abcdefghijklmnopqrs'']"

definition example_world :: world where
  \<comment> \<open>every required variable set, every service answering\<close>
  "example_world =
     \<lparr>env = example_env,
      started = lit ''11/2/2026, 9:00:00 AM'',
      mongoose_connect = (\<lambda>uri. None),
      mongoose_disconnect = None,
      cloudinary_usage = (\<lambda>cloudName apiKey apiSecret. None),
      fetch = (\<lambda>r. Inr \<lparr>status = 200\<rparr>)\<rparr>"

definition with_env :: "jsstring \<Rightarrow> jsstring option \<Rightarrow> world \<Rightarrow> world" where
  \<comment> \<open>the same run with one environment variable changed\<close>
  "with_env k v w = w\<lparr>env := (env w)(k := v)\<rparr>"

definition with_fetch :: "js_error + response \<Rightarrow> world \<Rightarrow> world" where
  \<comment> \<open>the same run with every request getting this outcome\<close>
  "with_fetch outcome w = w\<lparr>fetch := (\<lambda>r. outcome)\<rparr>"

section \<open>Properties\<close>

subsection \<open>Literals, counters and the example runs\<close>

lemma unat_of_char: "unat (of_char c :: 16 word) = of_char c"
proof -
  have "(of_char c :: 16 word) = of_nat (of_char c)"
    by (simp add: of_nat_of_char)
  then have "unat (of_char c :: 16 word) = of_char c mod 2 ^ 16"
    by (simp only: unat_of_nat) simp
  moreover have "(of_char c :: nat) < 256" by simp
  ultimately show ?thesis by simp
qed

lemma of_char_word_eq: "(of_char c :: 16 word) = of_char d \<longleftrightarrow> c = d"
proof
  assume "(of_char c :: 16 word) = of_char d"
  then have "unat (of_char c :: 16 word) = unat (of_char d :: 16 word)" by simp
  then have "(of_char c :: nat) = of_char d" by (simp only: unat_of_char)
  then show "c = d" by simp
qed simp

lemma lit_eq_iff [simp]: "lit a = lit b \<longleftrightarrow> a = b"
  unfolding lit_def by (rule inj_map_eq_map) (simp add: inj_on_def of_char_word_eq)

lemma lit_empty_iff [simp]: "lit a = [] \<longleftrightarrow> a = []"
  by (simp add: lit_def)

lemma length_lit [simp]: "length (lit a) = length a"
  by (simp add: lit_def)

lemma example_env_values:
  "truthy (env example_world (lit ''MONGODB_URI'')) =
     Some (lit ''mongodb+srv://user:pw@cluster0.example.net/bites'')"
  "truthy (env example_world (lit ''FRONTEND_URL'')) = Some (lit ''http://localhost:5173'')"
  "truthy (env example_world (lit ''CLODINARY_CLOUD_NAME'')) = Some (lit ''bites'')"
  "truthy (env example_world (lit ''CLODINARY_API_KEY'')) = Some (lit ''123456789012345'')"
  "truthy (env example_world (lit ''CLODINARY_API_SECRET_KEY'')) = Some (lit ''s3cr3t-cloud-key'')"
  "truthy (env example_world (lit ''RESEND_API'')) = Some (lit ''re_123456789'')"
  "truthy (env example_world (lit ''SECRET_KEY_ACCESS_TOKEN'')) = Some (lit ''abcdefghijklmnopqrst'')"
  "truthy (env example_world (lit ''SECRET_KEY_REFRESH_TOKEN'')) = Some (lit ''abcdefghijklmnopqrs'')"
  "truthy (env example_world (lit ''PORT'')) = None"
  "truthy (env example_world (lit ''STRIPE_SECRET_KEY'')) = None"
  by (simp_all add: example_world_def example_env_def truthy_def)

lemma example_services:
  "mongoose_connect example_world uri = None"
  "mongoose_disconnect example_world = None"
  "cloudinary_usage example_world a b c = None"
  "fetch example_world r = Inr \<lparr>status = 200\<rparr>"
  by (simp_all add: example_world_def)

lemma with_env_simps:
  "env (with_env k v w) k = v"
  "mongoose_connect (with_env k v w) = mongoose_connect w"
  "mongoose_disconnect (with_env k v w) = mongoose_disconnect w"
  "cloudinary_usage (with_env k v w) = cloudinary_usage w"
  "fetch (with_env k v w) = fetch w"
  by (simp_all add: with_env_def)

lemma with_fetch_simps:
  "env (with_fetch x w) = env w"
  "mongoose_connect (with_fetch x w) = mongoose_connect w"
  "mongoose_disconnect (with_fetch x w) = mongoose_disconnect w"
  "cloudinary_usage (with_fetch x w) = cloudinary_usage w"
  "fetch (with_fetch x w) r = x"
  by (simp_all add: with_fetch_def)

lemma truthy_simps:
  "truthy None = None" "truthy (Some (lit a)) = (if a = [] then None else Some (lit a))"
  by (simp_all add: truthy_def)

lemmas example_facts = example_env_values example_services with_env_simps with_fetch_simps
  truthy_simps initial_def

lemma counters_log [simp]:
  "testsPassed (log m c s) = testsPassed s" "testsFailed (log m c s) = testsFailed s"
  by (simp_all add: log_def)

lemma counters_passed_incr [simp]:
  "testsPassed (passed_incr s) = testsPassed s + 1" "testsFailed (passed_incr s) = testsFailed s"
  by (simp_all add: passed_incr_def)

lemma counters_failed_incr [simp]:
  "testsPassed (failed_incr s) = testsPassed s" "testsFailed (failed_incr s) = testsFailed s + 1"
  by (simp_all add: failed_incr_def)

lemma counters_section_header [simp]:
  "testsPassed (section_header t s) = testsPassed s"
  "testsFailed (section_header t s) = testsFailed s"
  by (simp_all add: section_header_def)

lemma lit_append: "lit (a @ b) = lit a @ lit b"
  by (simp add: lit_def)

lemma slice_last_lit: "slice_last n (lit a) = lit (drop (length a - n) a)"
  by (simp add: slice_last_def lit_def drop_map)

lemma printed_log:
  "printed m c s (log m c s')" if "length (console s) \<le> length (console s')"
  using that by (simp add: printed_def log_def)

lemma printed_later:
  "printed m c s (log m' c' s')" if "printed m c s s'"
  using that by (auto simp: printed_def log_def)

lemma printed_passed_incr [simp]: "printed m c s (passed_incr s') = printed m c s s'"
  by (simp add: printed_def passed_incr_def)

lemma printed_failed_incr [simp]: "printed m c s (failed_incr s') = printed m c s s'"
  by (simp add: printed_def failed_incr_def)

lemma console_grows_log: "length (console s) \<le> length (console (log m c s'))"
  if "length (console s) \<le> length (console s')"
  using that by (simp add: log_def)

lemma console_grows_header: "length (console s) \<le> length (console (section_header t s))"
  by (simp add: section_header_def log_def)


subsection \<open>The email-service check\<close>

text \<open>
  C1. With \<open>RESEND_API\<close> set, the check returns without throwing, and: a response with
  status 401 adds one to \<open>testsPassed\<close>; so does any response with a status from 200 to 299;
  a request that throws adds one to \<open>testsFailed\<close>; so does a response with any other
  status. In each case the other counter keeps its value.
\<close>

theorem resend_outcomes:
  assumes "truthy (env w (lit ''RESEND_API'')) = Some k"
  shows "fst (testResendAPI w s) = None \<and>
    (\<forall>r. fetch w (resend_request k) = Inr r \<and> status r = 401 \<longrightarrow>
       testsPassed (snd (testResendAPI w s)) = testsPassed s + 1 \<and>
       testsFailed (snd (testResendAPI w s)) = testsFailed s) \<and>
    (\<forall>r. fetch w (resend_request k) = Inr r \<and> 200 \<le> status r \<and> status r < 300 \<longrightarrow>
       testsPassed (snd (testResendAPI w s)) = testsPassed s + 1 \<and>
       testsFailed (snd (testResendAPI w s)) = testsFailed s) \<and>
    (\<forall>e. fetch w (resend_request k) = Inl e \<longrightarrow>
       testsPassed (snd (testResendAPI w s)) = testsPassed s \<and>
       testsFailed (snd (testResendAPI w s)) = testsFailed s + 1) \<and>
    (\<forall>r. fetch w (resend_request k) = Inr r \<and> status r \<noteq> 401 \<and>
         \<not> (200 \<le> status r \<and> status r < 300) \<longrightarrow>
       testsPassed (snd (testResendAPI w s)) = testsPassed s \<and>
       testsFailed (snd (testResendAPI w s)) = testsFailed s + 1)"
  using assms
  by (auto simp: testResendAPI_def testResendAPI_try_def ok_def Let_def split: sum.splits)

theorem resend_outcomes_witness:
  "testsPassed (snd (testResendAPI (with_fetch (Inr \<lparr>status = 401\<rparr>) example_world) initial)) = 1 \<and>
   testsFailed (snd (testResendAPI (with_fetch (Inr \<lparr>status = 401\<rparr>) example_world) initial)) = 0 \<and>
   testsPassed (snd (testResendAPI (with_fetch (Inr \<lparr>status = 204\<rparr>) example_world) initial)) = 1 \<and>
   testsFailed (snd (testResendAPI (with_fetch (Inr \<lparr>status = 204\<rparr>) example_world) initial)) = 0 \<and>
   testsPassed (snd (testResendAPI
     (with_fetch (Inl (Error (Some (lit ''connect ECONNREFUSED'')))) example_world) initial)) = 0 \<and>
   testsFailed (snd (testResendAPI
     (with_fetch (Inl (Error (Some (lit ''connect ECONNREFUSED'')))) example_world) initial)) = 1 \<and>
   testsPassed (snd (testResendAPI (with_fetch (Inr \<lparr>status = 500\<rparr>) example_world) initial)) = 0 \<and>
   testsFailed (snd (testResendAPI (with_fetch (Inr \<lparr>status = 500\<rparr>) example_world) initial)) = 1"
  using
    resend_outcomes [of "with_fetch (Inr \<lparr>status = 401\<rparr>) example_world" "lit ''re_123456789''" initial]
    resend_outcomes [of "with_fetch (Inr \<lparr>status = 204\<rparr>) example_world" "lit ''re_123456789''" initial]
    resend_outcomes [of "with_fetch (Inl (Error (Some (lit ''connect ECONNREFUSED'')))) example_world"
      "lit ''re_123456789''" initial]
    resend_outcomes [of "with_fetch (Inr \<lparr>status = 500\<rparr>) example_world" "lit ''re_123456789''" initial]
  by (simp add: example_facts)

subsection \<open>The JWT secrets\<close>

text \<open>
  C5. With both secrets set, each one of 20 code units or more adds one to \<open>testsPassed\<close>
  and each one of fewer than 20 adds one to \<open>testsFailed\<close>. In the example run the access
  secret has 20 code units and passes, the refresh secret has 19 and fails.
\<close>

theorem jwt_secret_strength:
  assumes "truthy (env w (lit ''SECRET_KEY_ACCESS_TOKEN'')) = Some a"
    and "truthy (env w (lit ''SECRET_KEY_REFRESH_TOKEN'')) = Some r"
  shows "fst (testJWTSecrets w s) = None \<and>
    testsPassed (snd (testJWTSecrets w s)) =
      testsPassed s + (if 20 \<le> length a then 1 else 0) + (if 20 \<le> length r then 1 else 0) \<and>
    testsFailed (snd (testJWTSecrets w s)) =
      testsFailed s + (if length a < 20 then 1 else 0) + (if length r < 20 then 1 else 0)"
  using assms by (simp add: testJWTSecrets_def testJWTSecrets_try_def Let_def)

theorem jwt_secret_strength_witness:
  "length (lit ''abcdefghijklmnopqrst'') = 20 \<and> length (lit ''abcdefghijklmnopqrs'') = 19 \<and>
   testsPassed (snd (testJWTSecrets example_world initial)) = 1 \<and>
   testsFailed (snd (testJWTSecrets example_world initial)) = 1"
  using jwt_secret_strength [of example_world "lit ''abcdefghijklmnopqrst''"
      "lit ''abcdefghijklmnopqrs''" initial]
  by (simp add: example_facts)

subsection \<open>The database check\<close>

text \<open>
  C9. One call of the database check does not always change exactly one counter. With the
  URI set: when the connection is made and the disconnect throws, both counters go up by
  one, because \<open>testsPassed\<close> was incremented before the disconnect and the \<open>catch\<close>
  increments \<open>testsFailed\<close>; when the connection fails only \<open>testsFailed\<close> goes up; when
  connect and disconnect both succeed only \<open>testsPassed\<close> goes up. With the URI unset no
  connection is tried and only \<open>testsFailed\<close> goes up.
\<close>

theorem mongo_counters:
  "fst (testMongoDBConnection w s) = None \<and>
   (\<forall>uri. truthy (env w (lit ''MONGODB_URI'')) = Some uri \<and> mongoose_connect w uri = None \<and>
        mongoose_disconnect w \<noteq> None \<longrightarrow>
      testsPassed (snd (testMongoDBConnection w s)) = testsPassed s + 1 \<and>
      testsFailed (snd (testMongoDBConnection w s)) = testsFailed s + 1) \<and>
   (\<forall>uri. truthy (env w (lit ''MONGODB_URI'')) = Some uri \<and> mongoose_connect w uri \<noteq> None \<longrightarrow>
      testsPassed (snd (testMongoDBConnection w s)) = testsPassed s \<and>
      testsFailed (snd (testMongoDBConnection w s)) = testsFailed s + 1) \<and>
   (\<forall>uri. truthy (env w (lit ''MONGODB_URI'')) = Some uri \<and> mongoose_connect w uri = None \<and>
        mongoose_disconnect w = None \<longrightarrow>
      testsPassed (snd (testMongoDBConnection w s)) = testsPassed s + 1 \<and>
      testsFailed (snd (testMongoDBConnection w s)) = testsFailed s) \<and>
   (truthy (env w (lit ''MONGODB_URI'')) = None \<longrightarrow>
      testsPassed (snd (testMongoDBConnection w s)) = testsPassed s \<and>
      testsFailed (snd (testMongoDBConnection w s)) = testsFailed s + 1)"
  by (auto simp: testMongoDBConnection_def testMongoDBConnection_try_def Let_def
        split: option.splits)

theorem mongo_counters_witness:
  "testsPassed (snd (testMongoDBConnection
      (example_world\<lparr>mongoose_disconnect := Some (Error (Some (lit ''socket closed'')))\<rparr>) initial)) = 1 \<and>
   testsFailed (snd (testMongoDBConnection
      (example_world\<lparr>mongoose_disconnect := Some (Error (Some (lit ''socket closed'')))\<rparr>) initial)) = 1 \<and>
   testsPassed (snd (testMongoDBConnection
      (example_world\<lparr>mongoose_connect := (\<lambda>uri. Some (Error (Some (lit ''timed out''))))\<rparr>) initial)) = 0 \<and>
   testsFailed (snd (testMongoDBConnection
      (example_world\<lparr>mongoose_connect := (\<lambda>uri. Some (Error (Some (lit ''timed out''))))\<rparr>) initial)) = 1 \<and>
   testsPassed (snd (testMongoDBConnection example_world initial)) = 1 \<and>
   testsFailed (snd (testMongoDBConnection example_world initial)) = 0 \<and>
   testsPassed (snd (testMongoDBConnection (with_env (lit ''MONGODB_URI'') None example_world) initial)) = 0 \<and>
   testsFailed (snd (testMongoDBConnection (with_env (lit ''MONGODB_URI'') None example_world) initial)) = 1"
  using
    mongo_counters [of "example_world\<lparr>mongoose_disconnect := Some (Error (Some (lit ''socket closed'')))\<rparr>" initial]
    mongo_counters [of "example_world\<lparr>mongoose_connect := (\<lambda>uri. Some (Error (Some (lit ''timed out''))))\<rparr>" initial]
    mongo_counters [of example_world initial]
    mongo_counters [of "with_env (lit ''MONGODB_URI'') None example_world" initial]
  by (simp add: example_facts)

subsection \<open>The environment variables\<close>

lemma envVar_callback_counters:
  "testsPassed (envVar_callback w v s) =
     testsPassed s + (if truthy (env w (name v)) \<noteq> None then 1 else 0)"
  "testsFailed (envVar_callback w v s) =
     testsFailed s + (if required v \<and> truthy (env w (name v)) = None then 1 else 0)"
  by (simp_all add: envVar_callback_def Let_def)

lemma forEach_counters:
  "testsPassed (foldl (\<lambda>s v. envVar_callback w v s) s vs) =
     testsPassed s + length (filter (\<lambda>v. truthy (env w (name v)) \<noteq> None) vs)"
  "testsFailed (foldl (\<lambda>s v. envVar_callback w v s) s vs) =
     testsFailed s + length (filter (\<lambda>v. required v \<and> truthy (env w (name v)) = None) vs)"
  by (induction vs arbitrary: s) (simp_all add: envVar_callback_counters)

text \<open>
  C6. For every environment variable spec: a required variable that is set adds one to
  \<open>testsPassed\<close> and leaves \<open>testsFailed\<close>; a required variable that is not set adds one to
  \<open>testsFailed\<close> and leaves \<open>testsPassed\<close>; an optional variable that is not set changes
  neither. A variable is set when its value passes the script's truth test, so one set
  to the empty string counts as not set. The whole check applies this once to each spec
  of the fixed list.
\<close>

theorem envVar_counting:
  "(required envVar \<and> truthy (env w (name envVar)) \<noteq> None \<longrightarrow>
      testsPassed (envVar_callback w envVar s) = testsPassed s + 1 \<and>
      testsFailed (envVar_callback w envVar s) = testsFailed s) \<and>
   (required envVar \<and> truthy (env w (name envVar)) = None \<longrightarrow>
      testsPassed (envVar_callback w envVar s) = testsPassed s \<and>
      testsFailed (envVar_callback w envVar s) = testsFailed s + 1) \<and>
   (\<not> required envVar \<and> truthy (env w (name envVar)) = None \<longrightarrow>
      testsPassed (envVar_callback w envVar s) = testsPassed s \<and>
      testsFailed (envVar_callback w envVar s) = testsFailed s) \<and>
   fst (testEnvironmentVariables w s) = None \<and>
   testsPassed (snd (testEnvironmentVariables w s)) =
     testsPassed s + length (filter (\<lambda>v. truthy (env w (name v)) \<noteq> None) envVars) \<and>
   testsFailed (snd (testEnvironmentVariables w s)) =
     testsFailed s + length (filter (\<lambda>v. required v \<and> truthy (env w (name v)) = None) envVars)"
  by (simp add: envVar_callback_counters testEnvironmentVariables_def forEach_counters)

theorem envVar_counting_witness:
  "\<lparr>name = lit ''MONGODB_URI'', required = True, sensitive = True\<rparr> \<in> set envVars \<and>
   \<lparr>name = lit ''PORT'', required = False, sensitive = False\<rparr> \<in> set envVars \<and>
   testsPassed (envVar_callback example_world
      \<lparr>name = lit ''MONGODB_URI'', required = True, sensitive = True\<rparr> initial) = 1 \<and>
   testsFailed (envVar_callback example_world
      \<lparr>name = lit ''MONGODB_URI'', required = True, sensitive = True\<rparr> initial) = 0 \<and>
   testsPassed (envVar_callback (with_env (lit ''MONGODB_URI'') None example_world)
      \<lparr>name = lit ''MONGODB_URI'', required = True, sensitive = True\<rparr> initial) = 0 \<and>
   testsFailed (envVar_callback (with_env (lit ''MONGODB_URI'') None example_world)
      \<lparr>name = lit ''MONGODB_URI'', required = True, sensitive = True\<rparr> initial) = 1 \<and>
   testsPassed (envVar_callback example_world
      \<lparr>name = lit ''PORT'', required = False, sensitive = False\<rparr> initial) = 0 \<and>
   testsFailed (envVar_callback example_world
      \<lparr>name = lit ''PORT'', required = False, sensitive = False\<rparr> initial) = 0 \<and>
   testsPassed (snd (testEnvironmentVariables example_world initial)) = 8 \<and>
   testsFailed (snd (testEnvironmentVariables example_world initial)) = 0"
  using
    envVar_counting [of "\<lparr>name = lit ''MONGODB_URI'', required = True, sensitive = True\<rparr>"
      example_world initial]
    envVar_counting [of "\<lparr>name = lit ''MONGODB_URI'', required = True, sensitive = True\<rparr>"
      "with_env (lit ''MONGODB_URI'') None example_world" initial]
    envVar_counting [of "\<lparr>name = lit ''PORT'', required = False, sensitive = False\<rparr>"
      example_world initial]
  by (simp add: example_facts envVars_def)

subsection \<open>The report without tests\<close>

text \<open>
  C10. With both counters at zero the pass percentage is the number 0, no division is
  made, the rate line reads \<open>0%\<close>, and the verdict printed is the all-tests-passed one,
  because the test for no failures comes first.
\<close>

theorem report_without_tests:
  assumes "testsPassed s = 0" and "testsFailed s = 0"
  shows "passPercentage s = Num 0 \<and>
    fst (generateReport s) = None \<and>
    printed (lit ''Success Rate: 0%'' @ newline) red s (snd (generateReport s)) \<and>
    printed ([0xD83C, 0xDF89]
               @ lit '' ALL TESTS PASSED! Your environment is properly configured.'')
      green s (snd (generateReport s))"
  using assms
  by (simp add: generateReport_def passPercentage_def totalTests_def Let_def printed_def log_def
        section_header_def to_dec.simps [of 0] digit_char_def lit_def)

theorem report_without_tests_witness:
  "passPercentage initial = Num 0 \<and>
   printed (lit ''Success Rate: 0%'' @ newline) red initial (snd (generateReport initial)) \<and>
   printed ([0xD83C, 0xDF89]
              @ lit '' ALL TESTS PASSED! Your environment is properly configured.'')
     green initial (snd (generateReport initial))"
  using report_without_tests [of initial] by (simp add: initial_def)

subsection \<open>The order routes\<close>

text \<open>
  C8. The order router holds exactly two routes, POST \<open>/cash-on-delivery\<close> with the
  cash-on-delivery controller and GET \<open>/order-list\<close> with the order-details controller,
  each with \<open>auth\<close> before the controller: on either route \<open>auth\<close> runs first, and the
  controller runs only after \<open>auth\<close> has called \<open>next\<close>.
\<close>

theorem order_routes:
  "orderRouter =
     [\<lparr>route_verb = POST, route_path = lit ''/cash-on-delivery'',
       route_stack = [auth, CashOnDeliveryOrderController]\<rparr>,
      \<lparr>route_verb = GET, route_path = lit ''/order-list'',
       route_stack = [auth, getOrderDetailsController]\<rparr>] \<and>
   (\<forall>behaviour q.
      run_stack behaviour (route_stack (orderRouter ! 0)) q =
        (case behaviour auth q of
           Respond r \<Rightarrow> ([auth], Some r)
         | Next \<Rightarrow>
             (case behaviour CashOnDeliveryOrderController q of
                Respond r \<Rightarrow> ([auth, CashOnDeliveryOrderController], Some r)
              | Next \<Rightarrow> ([auth, CashOnDeliveryOrderController], None)))) \<and>
   (\<forall>behaviour q.
      run_stack behaviour (route_stack (orderRouter ! 1)) q =
        (case behaviour auth q of
           Respond r \<Rightarrow> ([auth], Some r)
         | Next \<Rightarrow>
             (case behaviour getOrderDetailsController q of
                Respond r \<Rightarrow> ([auth, getOrderDetailsController], Some r)
              | Next \<Rightarrow> ([auth, getOrderDetailsController], None))))"
  by (simp add: orderRouter_def router_get_def router_post_def Router_def split: handled.splits)

subsection \<open>The CORS check\<close>

text \<open>
  C7. The CORS check returns without throwing, and: with \<open>FRONTEND_URL\<close> not set it adds
  one to \<open>testsFailed\<close>; with exactly \<open>http://localhost:5173\<close> it adds one to \<open>testsPassed\<close>
  and reports a valid development origin; with another value that contains
  \<open>vercel.app\<close> or \<open>campusbites\<close> it adds one to \<open>testsPassed\<close> and reports a valid
  production origin; with any other value it reports the origin as unusual and changes
  neither counter.
\<close>

theorem cors_classification:
  "fst (testCORSConfiguration w s) = None \<and>
   (truthy (env w (lit ''FRONTEND_URL'')) = None \<longrightarrow>
      testsPassed (snd (testCORSConfiguration w s)) = testsPassed s \<and>
      testsFailed (snd (testCORSConfiguration w s)) = testsFailed s + 1) \<and>
   (truthy (env w (lit ''FRONTEND_URL'')) = Some (lit ''http://localhost:5173'') \<longrightarrow>
      testsPassed (snd (testCORSConfiguration w s)) = testsPassed s + 1 \<and>
      testsFailed (snd (testCORSConfiguration w s)) = testsFailed s \<and>
      printed (check_mark @ lit '' CORS Configuration: VALID (Development)'') green s
        (snd (testCORSConfiguration w s))) \<and>
   (\<forall>u. truthy (env w (lit ''FRONTEND_URL'')) = Some u \<and> u \<noteq> lit ''http://localhost:5173'' \<and>
        (str_includes u (lit ''vercel.app'') \<or> str_includes u (lit ''campusbites'')) \<longrightarrow>
      testsPassed (snd (testCORSConfiguration w s)) = testsPassed s + 1 \<and>
      testsFailed (snd (testCORSConfiguration w s)) = testsFailed s \<and>
      printed (check_mark @ lit '' CORS Configuration: VALID (Production)'') green s
        (snd (testCORSConfiguration w s))) \<and>
   (\<forall>u. truthy (env w (lit ''FRONTEND_URL'')) = Some u \<and> u \<noteq> lit ''http://localhost:5173'' \<and>
        \<not> str_includes u (lit ''vercel.app'') \<and> \<not> str_includes u (lit ''campusbites'') \<longrightarrow>
      testsPassed (snd (testCORSConfiguration w s)) = testsPassed s \<and>
      testsFailed (snd (testCORSConfiguration w s)) = testsFailed s \<and>
      printed (warning_sign @ lit ''  CORS Configuration: UNUSUAL'') yellow s
        (snd (testCORSConfiguration w s)))"
  by (auto simp: testCORSConfiguration_def testCORSConfiguration_try_def Let_def printed_def
        log_def section_header_def passed_incr_def failed_incr_def split: option.splits)

lemma str_includes_examples:
  "str_includes (lit ''https://campusbites.vercel.app'') (lit ''vercel.app'')"
  "\<not> str_includes (lit ''https://example.org'') (lit ''vercel.app'')"
  "\<not> str_includes (lit ''https://example.org'') (lit ''campusbites'')"
  by (simp_all add: lit_def)

theorem cors_classification_witness:
  "testsPassed (snd (testCORSConfiguration (with_env (lit ''FRONTEND_URL'') None example_world) initial)) = 0 \<and>
   testsFailed (snd (testCORSConfiguration (with_env (lit ''FRONTEND_URL'') None example_world) initial)) = 1 \<and>
   testsPassed (snd (testCORSConfiguration example_world initial)) = 1 \<and>
   testsFailed (snd (testCORSConfiguration example_world initial)) = 0 \<and>
   printed (check_mark @ lit '' CORS Configuration: VALID (Development)'') green initial
     (snd (testCORSConfiguration example_world initial)) \<and>
   testsPassed (snd (testCORSConfiguration
      (with_env (lit ''FRONTEND_URL'') (Some (lit ''https://campusbites.vercel.app'')) example_world) initial)) = 1 \<and>
   testsFailed (snd (testCORSConfiguration
      (with_env (lit ''FRONTEND_URL'') (Some (lit ''https://campusbites.vercel.app'')) example_world) initial)) = 0 \<and>
   printed (check_mark @ lit '' CORS Configuration: VALID (Production)'') green initial
     (snd (testCORSConfiguration
      (with_env (lit ''FRONTEND_URL'') (Some (lit ''https://campusbites.vercel.app'')) example_world) initial)) \<and>
   testsPassed (snd (testCORSConfiguration
      (with_env (lit ''FRONTEND_URL'') (Some (lit ''https://example.org'')) example_world) initial)) = 0 \<and>
   testsFailed (snd (testCORSConfiguration
      (with_env (lit ''FRONTEND_URL'') (Some (lit ''https://example.org'')) example_world) initial)) = 0 \<and>
   printed (warning_sign @ lit ''  CORS Configuration: UNUSUAL'') yellow initial
     (snd (testCORSConfiguration
      (with_env (lit ''FRONTEND_URL'') (Some (lit ''https://example.org'')) example_world) initial))"
  using cors_classification [of "with_env (lit ''FRONTEND_URL'') None example_world" initial]
    cors_classification [of example_world initial]
    cors_classification [of "with_env (lit ''FRONTEND_URL'') (Some (lit ''https://campusbites.vercel.app'')) example_world" initial]
    cors_classification [of "with_env (lit ''FRONTEND_URL'') (Some (lit ''https://example.org'')) example_world" initial]
  by (simp add: example_facts str_includes_examples)

subsection \<open>What is displayed of a value\<close>

lemma value_line:
  "printed (lit ''   Value: '' @ displayValue envVar (env w (name envVar)) @ newline)
     (if truthy (env w (name envVar)) \<noteq> None then green else red) s (envVar_callback w envVar s)"
  by (simp add: envVar_callback_def Let_def printed_def log_def passed_incr_def failed_incr_def)

lemma resend_key_line:
  assumes "truthy (env w (lit ''RESEND_API'')) = Some k"
    and "fetch w (resend_request k) = Inr r"
    and "ok r \<or> status r = 401"
  shows "printed (lit ''   API Key: re_***'' @ slice_last 8 k) green s (snd (testResendAPI w s))"
  using assms
  by (auto simp: testResendAPI_def testResendAPI_try_def Let_def printed_def log_def
        section_header_def passed_incr_def)

text \<open>
  C4, as stated, fails: every sensitive value the script displays would be shown as
  \<open>***\<close> and its last four characters. In the example run the email-service check shows
  the sensitive \<open>RESEND_API\<close> value \<open>re_123456789\<close> as \<open>re_***23456789\<close>, its last eight
  characters after another prefix.
\<close>

theorem sensitive_display_counterexample:
  "truthy (env example_world (lit ''RESEND_API'')) = Some (lit ''re_123456789'') \<and>
   printed (lit ''   API Key: re_***23456789'') green initial
     (snd (testResendAPI example_world initial)) \<and>
   lit ''re_***23456789'' \<noteq> lit ''***'' @ slice_last 4 (lit ''re_123456789'')"
  using resend_key_line [of example_world "lit ''re_123456789''" "\<lparr>status = 200\<rparr>" initial]
  by (simp add: example_facts ok_def slice_last_lit lit_append [symmetric])

text \<open>
  C4, amended. In the listing of the environment variables a set sensitive value is
  displayed as \<open>***\<close> followed by its last four code units (all of it when it has fewer),
  and a set value that is not sensitive is displayed as it is; the listing prints that
  display on the \<open>Value\<close> line. The email-service check, when it passes, displays the API
  key as \<open>re_***\<close> followed by its last eight code units.
\<close>

theorem displayed_values:
  "(\<forall>x. truthy v = Some x \<longrightarrow>
      displayValue envVar v = (if sensitive envVar then lit ''***'' @ slice_last 4 x else x)) \<and>
   printed (lit ''   Value: '' @ displayValue envVar (env w (name envVar)) @ newline)
     (if truthy (env w (name envVar)) \<noteq> None then green else red) s (envVar_callback w envVar s) \<and>
   (\<forall>k r. truthy (env w (lit ''RESEND_API'')) = Some k \<and> fetch w (resend_request k) = Inr r \<and>
        (ok r \<or> status r = 401) \<longrightarrow>
      printed (lit ''   API Key: re_***'' @ slice_last 8 k) green s (snd (testResendAPI w s)))"
  using value_line resend_key_line by (auto simp: displayValue_def)

theorem displayed_values_witness:
  "displayValue \<lparr>name = lit ''RESEND_API'', required = True, sensitive = True\<rparr>
     (Some (lit ''re_123456789'')) = lit ''***6789'' \<and>
   displayValue \<lparr>name = lit ''STRIPE_SECRET_KEY'', required = False, sensitive = True\<rparr>
     (Some (lit ''abc'')) = lit ''***abc'' \<and>
   displayValue \<lparr>name = lit ''FRONTEND_URL'', required = True, sensitive = False\<rparr>
     (Some (lit ''http://localhost:5173'')) = lit ''http://localhost:5173'' \<and>
   printed (lit ''   API Key: re_***23456789'') green initial
     (snd (testResendAPI example_world initial))"
  using
    displayed_values [of "Some (lit ''re_123456789'')"
      "\<lparr>name = lit ''RESEND_API'', required = True, sensitive = True\<rparr>" example_world initial]
    displayed_values [of "Some (lit ''abc'')"
      "\<lparr>name = lit ''STRIPE_SECRET_KEY'', required = False, sensitive = True\<rparr>" example_world initial]
    displayed_values [of "Some (lit ''http://localhost:5173'')"
      "\<lparr>name = lit ''FRONTEND_URL'', required = True, sensitive = False\<rparr>" example_world initial]
  by (simp add: example_facts ok_def slice_last_lit lit_append [symmetric])

subsection \<open>Errors and the exit status\<close>

lemma exited_steps [simp]:
  "exited (log m c s) = exited s"
  "exited (passed_incr s) = exited s"
  "exited (failed_incr s) = exited s"
  "exited (section_header t s) = exited s"
  by (simp_all add: log_def passed_incr_def failed_incr_def section_header_def)

lemma envVars_returns:
  "fst (testEnvironmentVariables w s) = None"
  "exited (snd (testEnvironmentVariables w s)) = exited s"
proof -
  have "exited (foldl (\<lambda>s v. envVar_callback w v s) s' vs) = exited s'" for s' vs
    by (induction vs arbitrary: s') (simp_all add: envVar_callback_def Let_def)
  then show "exited (snd (testEnvironmentVariables w s)) = exited s"
    by (simp add: testEnvironmentVariables_def)
qed (simp add: testEnvironmentVariables_def)

lemma mongo_returns:
  "fst (testMongoDBConnection w s) = None"
  "exited (snd (testMongoDBConnection w s)) = exited s"
  by (simp_all add: testMongoDBConnection_def testMongoDBConnection_try_def Let_def
        split: option.splits)

lemma cloudinary_returns:
  "fst (testCloudinaryAPI w s) = None"
  "exited (snd (testCloudinaryAPI w s)) = exited s"
  by (simp_all add: testCloudinaryAPI_def testCloudinaryAPI_try_def Let_def
        split: option.splits)

lemma resend_returns:
  "fst (testResendAPI w s) = None"
  "exited (snd (testResendAPI w s)) = exited s"
  by (simp_all add: testResendAPI_def testResendAPI_try_def Let_def
        split: option.splits sum.splits)

lemma jwt_returns:
  "fst (testJWTSecrets w s) = None"
  "exited (snd (testJWTSecrets w s)) = exited s"
  by (simp_all add: testJWTSecrets_def testJWTSecrets_try_def Let_def split: option.splits)

lemma cors_returns:
  "fst (testCORSConfiguration w s) = None"
  "exited (snd (testCORSConfiguration w s)) = exited s"
  by (simp_all add: testCORSConfiguration_def testCORSConfiguration_try_def Let_def
        split: option.splits)

lemma endpoint_body_returns:
  "fst (endpoint_body w endpoint s) = None"
  "exited (snd (endpoint_body w endpoint s)) = exited s"
  by (simp_all add: endpoint_body_def endpoint_try_def Let_def split: sum.splits)

lemma for_of_returns:
  assumes "\<And>x s. fst (f x s) = None"
  shows "fst (for_of f xs s) = None"
proof (induction xs arbitrary: s)
  case Nil
  show ?case by simp
next
  case (Cons x xs)
  obtain r s' where fx: "f x s = (r, s')" by (cases "f x s")
  with assms [of x s] have "r = None" by simp
  with fx Cons show ?case by simp
qed

lemma for_of_exited:
  assumes "\<And>x s. fst (f x s) = None" and "\<And>x s. exited (snd (f x s)) = exited s"
  shows "exited (snd (for_of f xs s)) = exited s"
proof (induction xs arbitrary: s)
  case Nil
  show ?case by simp
next
  case (Cons x xs)
  obtain r s' where fx: "f x s = (r, s')" by (cases "f x s")
  with assms(1) [of x s] have r: "r = None" by simp
  from fx assms(2) [of x s] have "exited s' = exited s" by simp
  with fx r Cons [of s'] show ?case by simp
qed

lemma endpoints_returns:
  "fst (testAPIEndpoints w s) = None"
  "exited (snd (testAPIEndpoints w s)) = exited s"
  by (simp_all add: testAPIEndpoints_def for_of_returns for_of_exited endpoint_body_returns)

lemma report_returns:
  "fst (generateReport s) = None"
  "exited (snd (generateReport s)) = exited s"
  by (simp_all add: generateReport_def Let_def)

lemma seq_returns: "fst (a s) = None \<Longrightarrow> seq a b s = b (snd (a s))"
  by (cases "a s") (simp add: seq_def)

lemmas checks_return = envVars_returns mongo_returns cloudinary_returns resend_returns
  jwt_returns cors_returns endpoints_returns report_returns

lemma run_try_returns:
  "fst (runAllTests_try w s) = None"
  "exited (snd (runAllTests_try w s)) = exited s"
  by (simp_all add: runAllTests_try_def seq_returns checks_return)

lemma run_never_exits: "exited (runAllTests w s) = exited s"
proof -
  let ?s5 = "log (0x255A # rule_line @ [0x255D]) cyan
     (log ([0x2551] @ lit ''   Started: '' @ started w @ lit ''       '' @ [0x2551]) cyan
        (log ([0x2551] @ lit ''   CampusBites API & ENV Validation       '' @ [0x2551]) cyan
           (log (0x2554 # rule_line @ [0x2557]) cyan (log (newline @ newline) reset s))))"
  obtain r s' where t: "runAllTests_try w ?s5 = (r, s')" by (cases "runAllTests_try w ?s5")
  with run_try_returns [of w ?s5] have "r = None" and "exited s' = exited s" by simp_all
  with t show ?thesis by (simp add: runAllTests_def Let_def)
qed

lemma mongo_connect_error:
  assumes "truthy (env w (lit ''MONGODB_URI'')) = Some uri"
    and "mongoose_connect w uri = Some error"
  shows "testsPassed (snd (testMongoDBConnection w s)) = testsPassed s"
    "testsFailed (snd (testMongoDBConnection w s)) = testsFailed s + 1"
    "printed (lit ''   Error: '' @ template (message error)) red s
       (snd (testMongoDBConnection w s))"
  using assms
  by (simp_all add: testMongoDBConnection_def testMongoDBConnection_try_def Let_def
        printed_def log_def section_header_def passed_incr_def failed_incr_def)

lemma mongo_disconnect_error:
  assumes "truthy (env w (lit ''MONGODB_URI'')) = Some uri"
    and "mongoose_connect w uri = None" and "mongoose_disconnect w = Some error"
  shows "testsPassed (snd (testMongoDBConnection w s)) = testsPassed s + 1"
    "testsFailed (snd (testMongoDBConnection w s)) = testsFailed s + 1"
    "printed (lit ''   Error: '' @ template (message error)) red s
       (snd (testMongoDBConnection w s))"
  using assms
  by (simp_all add: testMongoDBConnection_def testMongoDBConnection_try_def Let_def
        printed_def log_def section_header_def passed_incr_def failed_incr_def)

lemma cloudinary_error:
  assumes "truthy (env w (lit ''CLODINARY_CLOUD_NAME'')) = Some cloudName"
    and "truthy (env w (lit ''CLODINARY_API_KEY'')) = Some apiKey"
    and "truthy (env w (lit ''CLODINARY_API_SECRET_KEY'')) = Some apiSecret"
    and "cloudinary_usage w cloudName apiKey apiSecret = Some error"
  shows "testsPassed (snd (testCloudinaryAPI w s)) = testsPassed s"
    "testsFailed (snd (testCloudinaryAPI w s)) = testsFailed s + 1"
    "printed (lit ''   Error: '' @ template (message error)) red s (snd (testCloudinaryAPI w s))"
  using assms
  by (simp_all add: testCloudinaryAPI_def testCloudinaryAPI_try_def Let_def
        printed_def log_def section_header_def passed_incr_def failed_incr_def)

lemma resend_error:
  assumes "truthy (env w (lit ''RESEND_API'')) = Some k"
    and "fetch w (resend_request k) = Inl error"
  shows "testsPassed (snd (testResendAPI w s)) = testsPassed s"
    "testsFailed (snd (testResendAPI w s)) = testsFailed s + 1"
    "printed (lit ''   Error: '' @ template (message error)) red s (snd (testResendAPI w s))"
  using assms
  by (simp_all add: testResendAPI_def testResendAPI_try_def Let_def
        printed_def log_def section_header_def passed_incr_def failed_incr_def)

lemma endpoint_error:
  assumes "fetch w (endpoint_request endpoint) = Inl error"
  shows "testsPassed (snd (endpoint_body w endpoint s)) = testsPassed s"
    "testsFailed (snd (endpoint_body w endpoint s)) = testsFailed s + 1"
    "printed (lit ''   Error: '' @ template (message error)) red s
       (snd (endpoint_body w endpoint s))"
  using assms
  by (simp_all add: endpoint_body_def endpoint_try_def Let_def printed_def log_def
        failed_incr_def)

text \<open>
  C3. No check throws: each of the eight awaited functions returns. Every error raised
  inside a check (by the database connect or disconnect, the Cloudinary call, the
  email-service request, or the request to an endpoint) is caught in that check, adds
  one to \<open>testsFailed\<close> and is logged with its message. So the \<open>catch\<close> of \<open>runAllTests\<close>,
  the only place that calls \<open>process.exit\<close>, and with status 1, is never reached: the
  run ends without an exit call, that is with status 0, whatever the checks found.
\<close>

theorem errors_stay_in_their_check:
  "fst (testEnvironmentVariables w s) = None \<and> fst (testMongoDBConnection w s) = None \<and>
   fst (testCloudinaryAPI w s) = None \<and> fst (testResendAPI w s) = None \<and>
   fst (testJWTSecrets w s) = None \<and> fst (testCORSConfiguration w s) = None \<and>
   fst (testAPIEndpoints w s) = None \<and> fst (generateReport s) = None \<and>
   (\<forall>uri error.
      truthy (env w (lit ''MONGODB_URI'')) = Some uri \<and> mongoose_connect w uri = Some error \<longrightarrow>
      testsPassed (snd (testMongoDBConnection w s)) = testsPassed s \<and>
      testsFailed (snd (testMongoDBConnection w s)) = testsFailed s + 1 \<and>
      printed (lit ''   Error: '' @ template (message error)) red s
        (snd (testMongoDBConnection w s))) \<and>
   (\<forall>uri error.
      truthy (env w (lit ''MONGODB_URI'')) = Some uri \<and> mongoose_connect w uri = None \<and>
      mongoose_disconnect w = Some error \<longrightarrow>
      testsPassed (snd (testMongoDBConnection w s)) = testsPassed s + 1 \<and>
      testsFailed (snd (testMongoDBConnection w s)) = testsFailed s + 1 \<and>
      printed (lit ''   Error: '' @ template (message error)) red s
        (snd (testMongoDBConnection w s))) \<and>
   (\<forall>cloudName apiKey apiSecret error.
      truthy (env w (lit ''CLODINARY_CLOUD_NAME'')) = Some cloudName \<and>
      truthy (env w (lit ''CLODINARY_API_KEY'')) = Some apiKey \<and>
      truthy (env w (lit ''CLODINARY_API_SECRET_KEY'')) = Some apiSecret \<and>
      cloudinary_usage w cloudName apiKey apiSecret = Some error \<longrightarrow>
      testsPassed (snd (testCloudinaryAPI w s)) = testsPassed s \<and>
      testsFailed (snd (testCloudinaryAPI w s)) = testsFailed s + 1 \<and>
      printed (lit ''   Error: '' @ template (message error)) red s
        (snd (testCloudinaryAPI w s))) \<and>
   (\<forall>k error.
      truthy (env w (lit ''RESEND_API'')) = Some k \<and> fetch w (resend_request k) = Inl error \<longrightarrow>
      testsPassed (snd (testResendAPI w s)) = testsPassed s \<and>
      testsFailed (snd (testResendAPI w s)) = testsFailed s + 1 \<and>
      printed (lit ''   Error: '' @ template (message error)) red s (snd (testResendAPI w s))) \<and>
   (\<forall>endpoint error.
      fetch w (endpoint_request endpoint) = Inl error \<longrightarrow>
      fst (endpoint_body w endpoint s) = None \<and>
      testsPassed (snd (endpoint_body w endpoint s)) = testsPassed s \<and>
      testsFailed (snd (endpoint_body w endpoint s)) = testsFailed s + 1 \<and>
      printed (lit ''   Error: '' @ template (message error)) red s
        (snd (endpoint_body w endpoint s))) \<and>
   exited (runAllTests w s) = exited s \<and>
   exit_status (runAllTests w initial) = 0"
proof -
  have "exit_status (runAllTests w initial) = 0"
    by (simp add: exit_status_def run_never_exits initial_def)
  then show ?thesis
    using mongo_connect_error [of w _ _ s] mongo_disconnect_error [of w _ _ s]
      cloudinary_error [of w _ _ _ _ s] resend_error [of w _ _ s] endpoint_error [of w _ _ s]
    by (simp add: checks_return endpoint_body_returns run_never_exits)
qed

end
